theory Spec2Isabelle
  imports Main "HOL-Library.Sublist" "HOL-Library.AList"
begin

section \<open>Git status values\<close>

text \<open>
  The string-literal union \<^verbatim>\<open>GitStatus\<close> of \<^verbatim>\<open>store/types.ts\<close>, extended by
  \<^verbatim>\<open>'unmerged'\<close>, which \<^verbatim>\<open>processStatusCode\<close> and \<^verbatim>\<open>fileStatus\<close> return, and the
  \<^verbatim>\<open>BranchStatus\<close> values \<^verbatim>\<open>worktreeStatus\<close> computes.
\<close>

datatype GitStatus =
    Modified | Ignored | Unmodified | StarModified | StarDeleted | StarAdded
  | Absent | Deleted | Added | StarUnmodified | StarAbsent | StarUndeleted
  | StarUndeletemodified | Unmerged

datatype BranchStatus = Clean | Uncommitted | BranchUnmerged

section \<open>The regular expressions of \<^verbatim>\<open>processStatusCode\<close>\<close>

text \<open>
  The fragment of JavaScript regular expressions the status patterns use: a literal
  character, \<^verbatim>\<open>.\<close> (any character but a line terminator), a character class, sequence,
  alternation and the positive lookahead \<^verbatim>\<open>(?=r)\<close>. Strings are ASCII here, so the line
  terminators are line feed and carriage return.
\<close>

datatype regex =
    Chr char
  | Dot
  | Cls "char list"
  | Seq regex regex
  | Alt regex regex
  | Ahead regex

definition isLineTerminator :: "char \<Rightarrow> bool" where
  "isLineTerminator c = (c = CHR 0x0A \<or> c = CHR 0x0D)"

text \<open>\<open>rmatch r s\<close> lists what is left of \<open>s\<close> after each way \<open>r\<close> matches at its start.\<close>

fun rmatch :: "regex \<Rightarrow> string \<Rightarrow> string list" where
  "rmatch (Chr c) s = (case s of [] \<Rightarrow> [] | x # xs \<Rightarrow> if x = c then [xs] else [])"
| "rmatch Dot s = (case s of [] \<Rightarrow> [] | x # xs \<Rightarrow> if isLineTerminator x then [] else [xs])"
| "rmatch (Cls cs) s = (case s of [] \<Rightarrow> [] | x # xs \<Rightarrow> if x \<in> set cs then [xs] else [])"
| "rmatch (Seq r1 r2) s = concat (map (rmatch r2) (rmatch r1 s))"
| "rmatch (Alt r1 r2) s = rmatch r1 s @ rmatch r2 s"
| "rmatch (Ahead r) s = (if rmatch r s = [] then [] else [s])"

text \<open>\<^verbatim>\<open>RegExp.prototype.test\<close> of a pattern without flags: a match at some start index.\<close>

fun test :: "regex \<Rightarrow> string \<Rightarrow> bool" where
  "test r [] = (rmatch r [] \<noteq> [])"
| "test r (x # xs) = (rmatch r (x # xs) \<noteq> [] \<or> test r xs)"

text \<open>\<^verbatim>\<open>/(DD|AA|.U|U.)/\<close>\<close>

definition re_unmerged :: regex where
  "re_unmerged =
     Alt (Seq (Chr CHR ''D'') (Chr CHR ''D''))
    (Alt (Seq (Chr CHR ''A'') (Chr CHR ''A''))
    (Alt (Seq Dot (Chr CHR ''U''))
         (Seq (Chr CHR ''U'') Dot)))"

text \<open>\<^verbatim>\<open>/c(?=[ MTD])/\<close>: the character, then a lookahead.\<close>

definition re_staged :: "char \<Rightarrow> regex" where
  "re_staged c = Seq (Chr c) (Ahead (Cls '' MTD''))"

text \<open>\<^verbatim>\<open>/(?=[ MTD])c/\<close>: the lookahead stands before the character and looks at it.\<close>

definition re_unstaged :: "char \<Rightarrow> regex" where
  "re_unstaged c = Seq (Ahead (Cls '' MTD'')) (Chr c)"

text \<open>
  \<^verbatim>\<open>processStatusCode\<close>, with what it writes to \<^verbatim>\<open>console.error\<close> as the second
  component. \<open>None\<close> is \<^verbatim>\<open>undefined\<close>; the empty string is falsy as well.
\<close>

definition processStatusCode :: "string option \<Rightarrow> GitStatus \<times> string list" where
  "processStatusCode statusCode =
     (case statusCode of
        None \<Rightarrow> (Unmodified, [])
      | Some s \<Rightarrow>
          if s = [] then (Unmodified, [])
          else if s = ''!!'' then (Ignored, [])
          else if s = ''??'' then (Absent, [])
          else if test re_unmerged s then (Unmerged, [])
          else if test (re_staged CHR ''M'') s then (Modified, [])
          else if test (re_unstaged CHR ''M'') s then (StarModified, [])
          else if test (re_staged CHR ''A'') s then (Added, [])
          else if test (re_unstaged CHR ''A'') s then (StarAdded, [])
          else if test (re_staged CHR ''D'') s then (Deleted, [])
          else if test (re_unstaged CHR ''D'') s then (StarDeleted, [])
          else (Unmodified, [''Unable to convert '' @ [CHR 0x27] @ s @ [CHR 0x27] @ '' status code'']))"

section \<open>Working tree status (\<^verbatim>\<open>worktreeStatus\<close>, \<^verbatim>\<open>fileStatus\<close>)\<close>

text \<open>
  JavaScript truthiness of a \<^verbatim>\<open>string | undefined\<close>: \<^verbatim>\<open>undefined\<close> and the empty string
  are falsy.
\<close>

definition truthy :: "string option \<Rightarrow> bool" where
  "truthy v = (case v of None \<Rightarrow> False | Some s \<Rightarrow> s \<noteq> [])"

record StatusOutput =
  so_ref :: string
  so_root :: string
  so_status :: BranchStatus
  so_bare :: bool
  so_entries :: "(string \<times> GitStatus) list"

text \<open>
  What \<^verbatim>\<open>worktreeStatus\<close> reads off the output of \<^verbatim>\<open>git status --porcelain --branch\<close>:
  \<open>branchMatches\<close> is \<^verbatim>\<open>stdout.match(branchesPattern)\<close> (the pattern has the \<^verbatim>\<open>g\<close> flag, so
  this is the list of whole matches, empty for \<^verbatim>\<open>null\<close>), \<open>entryMatches\<close> is
  \<^verbatim>\<open>Array.from(stdout.matchAll(entriesPattern))\<close> with each match \<^verbatim>\<open>e\<close> given as
  \<^verbatim>\<open>(e[1], e[2])\<close>, the two-character code and the path.
\<close>

record exec_output =
  branchMatches :: "string list"
  entryMatches :: "(string \<times> string) list"
  stderr :: string

text \<open>
  The collaborators of the status module, none of them part of it: \<^verbatim>\<open>getRoot\<close>
  (git-path), \<^verbatim>\<open>getIgnore(root).ignores(path)\<close> (git-ignore), \<^verbatim>\<open>execute\<close> of the status
  command (by the \<^verbatim>\<open>ignored\<close> flag, the pathspec and the working directory),
  \<^verbatim>\<open>isDirectory\<close> and \<^verbatim>\<open>isEqualPaths\<close> (io) and Node's \<^verbatim>\<open>path.relative\<close>.
\<close>

record status_env =
  getRoot :: "string \<Rightarrow> string option"
  ignores :: "string \<Rightarrow> string \<Rightarrow> bool"
  execute_status :: "bool \<Rightarrow> string option \<Rightarrow> string \<Rightarrow> exec_output"
  isDirectory :: "string \<Rightarrow> bool"
  isEqualPaths :: "string \<Rightarrow> string \<Rightarrow> bool"
  relative :: "string \<Rightarrow> string \<Rightarrow> string"

text \<open>One entry of the \<^verbatim>\<open>map\<close> in \<^verbatim>\<open>worktreeStatus\<close>, with the diagnostics it logs.\<close>

definition statusEntry ::
  "status_env \<Rightarrow> string \<Rightarrow> string \<times> string \<Rightarrow> (string \<times> GitStatus) \<times> string list" where
  "statusEntry env root e =
     (let filepath = snd e;
          isIgnored = ignores env root filepath
      in if isIgnored then ((filepath, Ignored), [])
         else ((filepath, fst (processStatusCode (Some (fst e)))),
               snd (processStatusCode (Some (fst e)))))"

definition branchStatus :: "(string \<times> GitStatus) list \<Rightarrow> BranchStatus" where
  "branchStatus entries =
     (if length entries = 0 then Clean
      else if find (\<lambda>e. snd e = Unmerged) entries \<noteq> None then BranchUnmerged
      else Uncommitted)"

text \<open>
  \<^verbatim>\<open>worktreeStatus({dir, pathspec, ignored})\<close>; the second component is what goes to
  \<^verbatim>\<open>console.error\<close>.
\<close>

definition worktreeStatus ::
  "status_env \<Rightarrow> string \<Rightarrow> string option \<Rightarrow> bool \<Rightarrow> StatusOutput option \<times> string list" where
  "worktreeStatus env dir pathspec ignored =
     (case getRoot env dir of
        None \<Rightarrow> (None, [])
      | Some root \<Rightarrow>
          if root = [] then (None, [])
          else
            (let output = execute_status env ignored pathspec dir;
                 ref = (case branchMatches output of m0 # m1 # ms \<Rightarrow> Some m1 | _ \<Rightarrow> None);
                 processed = map (statusEntry env root) (entryMatches output);
                 entries = map fst processed;
                 status = branchStatus entries
             in (Some \<lparr> so_ref = (case ref of None \<Rightarrow> [] | Some r \<Rightarrow> r),
                        so_root = dir,
                        so_status = status,
                        so_bare = (if truthy ref then False else True),
                        so_entries = entries \<rparr>,
                 concat (map snd processed)
                 @ (if length (stderr output) > 0 then [stderr output] else []))))"

text \<open>\<^verbatim>\<open>fileStatus(filepath)\<close>, again with the diagnostics as second component.\<close>

definition fileStatus :: "status_env \<Rightarrow> string \<Rightarrow> GitStatus option \<times> string list" where
  "fileStatus env filepath =
     (case getRoot env filepath of
        None \<Rightarrow> (None, [''git-status error: no .git exists within parent directories''])
      | Some root \<Rightarrow>
          if root = [] then
            (None, [''git-status error: no .git exists within parent directories''])
          else
            (case worktreeStatus env root (Some filepath) False of
               (None, log) \<Rightarrow>
                 (None, log @ [''git-status error: path not contained in a directory tracked by version control''])
             | (Some bs, log) \<Rightarrow>
                 if isDirectory env filepath then
                   (let isIgnored = (if isEqualPaths env root filepath then False
                                     else ignores env root (relative env root filepath))
                    in if isIgnored then (Some Ignored, log)
                       else (case so_status bs of
                               Clean \<Rightarrow> (Some Unmodified, log)
                             | Uncommitted \<Rightarrow> (Some Modified, log)
                             | BranchUnmerged \<Rightarrow> (Some Unmerged, log)))
                 else
                   (case find (\<lambda>e. isEqualPaths env (fst e) (relative env root filepath))
                           (so_entries bs) of
                      None \<Rightarrow> (Some Unmodified, log)
                    | Some e \<Rightarrow> (Some (snd e), log))))"

text \<open>
  A repository \<^verbatim>\<open>repo\<close> whose status output lists \<^verbatim>\<open>a.txt\<close> as \<^verbatim>\<open>" M"\<close> and
  \<^verbatim>\<open>b.txt\<close> as \<^verbatim>\<open>"UU"\<close>; \<^verbatim>\<open>repo/build\<close> is an ignored directory.
\<close>

definition example_status_env :: status_env where
  "example_status_env =
     \<lparr> getRoot = (\<lambda>p. if take 4 p = ''repo'' then Some ''repo'' else None),
       ignores = (\<lambda>root p. p = ''build''),
       execute_status = (\<lambda>ignored pathspec dir.
          \<lparr> branchMatches = [''## master...origin/master''],
            entryMatches = [('' M'', ''a.txt''), (''UU'', ''b.txt'')],
            stderr = [] \<rparr>),
       isDirectory = (\<lambda>p. p = ''repo'' \<or> p = ''repo/build''),
       isEqualPaths = (\<lambda>p q. p = q),
       relative = (\<lambda>root p. drop 5 p) \<rparr>"

section \<open>Porcelain operations (\<^verbatim>\<open>containers/git-porcelain.ts\<close>)\<close>

text \<open>
  A destructured parameter with a default takes the default when the caller passes
  \<^verbatim>\<open>undefined\<close> or nothing; \<open>None\<close> is that case.
\<close>

definition param_default :: "'a option \<Rightarrow> 'a \<Rightarrow> 'a" where
  "param_default v d = (case v of None \<Rightarrow> d | Some x \<Rightarrow> x)"

text \<open>\<^verbatim>\<open>v === undefined\<close>\<close>

definition is_undefined :: "'a option \<Rightarrow> bool" where
  "is_undefined v = (v = None)"

subsection \<open>\<^verbatim>\<open>checkout\<close>\<close>

record checkout_args =
  co_dir :: string
  co_gitdir :: "string option"
  co_ref :: "string option"
  co_filepaths :: "string list option"
  co_remote :: "string option"
  co_noCheckout :: "bool option"
  co_noUpdateHead :: "bool option"
  co_dryRun :: "bool option"
  co_force :: "bool option"

text \<open>
  The object handed to \<^verbatim>\<open>isogit.checkout\<close> (without the injected \<^verbatim>\<open>fs\<close>);
  \<^verbatim>\<open>removeUndefinedProperties\<close> leaves \<open>ic_filepaths\<close> out when it is undefined.
\<close>

record isogit_checkout =
  ic_dir :: string
  ic_gitdir :: string
  ic_ref :: string
  ic_remote :: string
  ic_noCheckout :: bool
  ic_noUpdateHead :: bool
  ic_dryRun :: bool
  ic_force :: bool
  ic_filepaths :: "string list option"

text \<open>
  \<^verbatim>\<open>checkout\<close>. The defaults of the parameter list are evaluated left to right, each
  seeing the bindings before it: when the default of \<^verbatim>\<open>noUpdateHead\<close>,
  \<^verbatim>\<open>ref === undefined\<close>, is evaluated, \<open>ref\<close> is the binding that already went through
  its own default \<^verbatim>\<open>'HEAD'\<close>, so it is a defined string. \<open>join\<close> is Node's
  \<^verbatim>\<open>path.join\<close>.
\<close>

definition checkout :: "(string \<Rightarrow> string \<Rightarrow> string) \<Rightarrow> checkout_args \<Rightarrow> isogit_checkout" where
  "checkout join args =
     (let dir = co_dir args;
          gitdir = param_default (co_gitdir args) (join dir ''.git'');
          ref = param_default (co_ref args) ''HEAD'';
          filepaths = co_filepaths args;
          remote = param_default (co_remote args) ''origin'';
          noCheckout = param_default (co_noCheckout args) False;
          noUpdateHead = param_default (co_noUpdateHead args) (is_undefined (Some ref));
          dryRun = param_default (co_dryRun args) False;
          force = param_default (co_force args) False
      in \<lparr> ic_dir = dir, ic_gitdir = gitdir, ic_ref = ref, ic_remote = remote,
           ic_noCheckout = noCheckout, ic_noUpdateHead = noUpdateHead, ic_dryRun = dryRun,
           ic_force = force, ic_filepaths = filepaths \<rparr>)"

subsection \<open>\<^verbatim>\<open>clone\<close>\<close>















subsection \<open>\<^verbatim>\<open>merge\<close>\<close>

text \<open>The object handed to \<^verbatim>\<open>isogit.merge\<close> (without \<^verbatim>\<open>fs\<close>).\<close>

record isogit_merge =
  im_dir :: string
  im_ours :: string
  im_theirs :: string
  im_dryRun :: bool
  im_author_name :: string
  im_author_email :: string

text \<open>
  The result \<^verbatim>\<open>{...mergeResult, ...optionals}\<close>: the merge result of the library and
  the property \<^verbatim>\<open>missingConfigs\<close>, absent (\<open>None\<close>) when
  \<^verbatim>\<open>removeUndefinedProperties\<close> dropped it.
\<close>

record 'r merge_output =
  mo_mergeResult :: 'r
  mo_missingConfigs :: "string list option"

text \<open>\<^verbatim>\<open>!config.value || config.value.length <= 0\<close>\<close>

definition config_missing :: "string option \<Rightarrow> bool" where
  "config_missing v =
     (if \<not> truthy v then True
      else (case v of None \<Rightarrow> False | Some s \<Rightarrow> length s \<le> 0))"

text \<open>\<^verbatim>\<open>value ? value : placeholder\<close>\<close>

definition value_or :: "string option \<Rightarrow> string \<Rightarrow> string" where
  "value_or v placeholder =
     (case v of None \<Rightarrow> placeholder | Some s \<Rightarrow> if s \<noteq> [] then s else placeholder)"

text \<open>
  \<^verbatim>\<open>merge(dir, base, compare, dryRun = false)\<close>: the call it makes and what it returns.
  \<open>isogit_getConfig\<close> is \<^verbatim>\<open>isogit.getConfig\<close> by directory and path, \<open>run_merge\<close> is
  \<^verbatim>\<open>isogit.merge\<close>.
\<close>

definition merge ::
  "(string \<Rightarrow> string \<Rightarrow> string option) \<Rightarrow> (isogit_merge \<Rightarrow> 'r) \<Rightarrow>
   string \<Rightarrow> string \<Rightarrow> string \<Rightarrow> bool option \<Rightarrow> isogit_merge \<times> 'r merge_output" where
  "merge isogit_getConfig run_merge dir base compare dryRunArg =
     (let dryRun = param_default dryRunArg False;
          name = (''user.name'', isogit_getConfig dir ''user.name'');
          email = (''user.email'', isogit_getConfig dir ''user.email'');
          missing = map fst (filter (\<lambda>config. config_missing (snd config)) [name, email]);
          call = \<lparr> im_dir = dir, im_ours = base, im_theirs = compare, im_dryRun = dryRun,
                   im_author_name = value_or (snd name) ''Mr. Test'',
                   im_author_email = value_or (snd email) ''mrtest@example.com'' \<rparr>;
          mergeResult = run_merge call
      in (call, \<lparr> mo_mergeResult = mergeResult,
                   mo_missingConfigs = (if length missing > 0 then Some missing else None) \<rparr>))"

text \<open>A configuration where only \<^verbatim>\<open>user.email\<close> is set.\<close>

definition example_email_only :: "string \<Rightarrow> string \<Rightarrow> string option" where
  "example_email_only dir path = (if path = ''user.email'' then Some ''dev@example.org'' else None)"

subsection \<open>\<^verbatim>\<open>getStatus\<close>\<close>

text \<open>
  A row of the status matrix, \<^verbatim>\<open>[filepath, HEAD, WORKDIR, STAGE]\<close>: \<^verbatim>\<open>row[1]\<close> is the
  HEAD status, \<^verbatim>\<open>row[2]\<close> the working-directory status, \<^verbatim>\<open>row[3]\<close> the stage status.
\<close>

type_synonym StatusRow = "string \<times> nat \<times> nat \<times> nat"

definition row_filepath :: "StatusRow \<Rightarrow> string" where
  "row_filepath row = fst row"

definition row_head :: "StatusRow \<Rightarrow> nat" where
  "row_head row = fst (snd row)"

definition row_workdir :: "StatusRow \<Rightarrow> nat" where
  "row_workdir row = fst (snd (snd row))"

definition row_stage :: "StatusRow \<Rightarrow> nat" where
  "row_stage row = snd (snd (snd row))"

text \<open>
  What \<^verbatim>\<open>getStatus\<close> asks of its surroundings: \<^verbatim>\<open>io.isDirectory\<close>, \<^verbatim>\<open>statusMatrix\<close> and
  \<^verbatim>\<open>matrixEntry\<close> (git-plumbing; \<open>None\<close> is \<^verbatim>\<open>undefined\<close>), and for the variant of
  \<^verbatim>\<open>old-git/git-porcelain.ts\<close> also \<^verbatim>\<open>getRoot\<close>, the \<^verbatim>\<open>worktreeDir\<close> of
  \<^verbatim>\<open>getWorktreePaths\<close> and the \<^verbatim>\<open>statusMatrix\<close> of the worktree shim, whose rows
  carry a \<^verbatim>\<open>status\<close>.
\<close>

record plumbing_env =
  pl_isDirectory :: "string \<Rightarrow> bool"
  pl_statusMatrix :: "string \<Rightarrow> StatusRow list option"
  pl_matrixEntry :: "string \<Rightarrow> GitStatus option"
  pl_getRoot :: "string \<Rightarrow> string option"
  pl_worktreeDir :: "string \<Rightarrow> string option"
  pl_shimStatusMatrix :: "string \<Rightarrow> (string \<times> GitStatus) list option"

text \<open>\<^verbatim>\<open>getStatus\<close> of \<^verbatim>\<open>containers/git-porcelain.ts\<close>.\<close>

definition getStatus :: "plumbing_env \<Rightarrow> string \<Rightarrow> GitStatus option" where
  "getStatus env filepath =
     (if pl_isDirectory env filepath then
        (let statuses = pl_statusMatrix env filepath;
             changed = (case statuses of
                          Some rows \<Rightarrow>
                            map row_filepath (filter (\<lambda>row. row_head row \<noteq> row_workdir row) rows)
                        | None \<Rightarrow> [])
         in Some (if length changed > 0 then Modified else Unmodified))
      else pl_matrixEntry env filepath)"

text \<open>\<^verbatim>\<open>getStatus\<close> of \<^verbatim>\<open>containers/old-git/git-porcelain.ts\<close>.\<close>

definition old_getStatus :: "plumbing_env \<Rightarrow> string \<Rightarrow> GitStatus option" where
  "old_getStatus env filepath =
     (if pl_isDirectory env filepath then
        (let root = pl_getRoot env filepath;
             worktreeDir = pl_worktreeDir env filepath
         in if \<not> truthy root then None
            else if truthy worktreeDir then
              (let statuses = pl_shimStatusMatrix env filepath;
                   changed = (case statuses of
                                Some rows \<Rightarrow> filter (\<lambda>row. snd row \<noteq> Unmodified) rows
                              | None \<Rightarrow> [])
               in Some (if length changed > 0 then Modified else Unmodified))
            else
              (let statuses = pl_statusMatrix env filepath;
                   changed = (case statuses of
                                Some rows \<Rightarrow>
                                  map row_filepath
                                    (filter (\<lambda>row. row_head row \<noteq> row_workdir row) rows)
                              | None \<Rightarrow> [])
               in Some (if length changed > 0 then Modified else Unmodified)))
      else pl_matrixEntry env filepath)"

text \<open>
  The collapse as the specification words it: the rows whose HEAD status differs from
  their stage status decide.
\<close>

definition spec_collapse :: "StatusRow list \<Rightarrow> GitStatus" where
  "spec_collapse rows =
     (if filter (\<lambda>row. row_head row \<noteq> row_stage row) rows \<noteq> [] then Modified else Unmodified)"

text \<open>
  Two directories of a main worktree: in \<^verbatim>\<open>repo\<close> the file \<^verbatim>\<open>a.txt\<close> is modified and
  not staged (\<^verbatim>\<open>[1, 2, 1]\<close>); in \<^verbatim>\<open>repo/sub\<close> the file \<^verbatim>\<open>b.txt\<close> was removed from the
  index and is still in the working directory (\<^verbatim>\<open>[1, 1, 0]\<close>). \<^verbatim>\<open>repo/c.txt\<close> is a file.
\<close>

definition example_plumbing_env :: plumbing_env where
  "example_plumbing_env =
     \<lparr> pl_isDirectory = (\<lambda>p. p = ''repo'' \<or> p = ''repo/sub''),
       pl_statusMatrix = (\<lambda>p. if p = ''repo'' then Some [(''a.txt'', 1, 2, 1)]
                              else if p = ''repo/sub'' then Some [(''sub/b.txt'', 1, 1, 0)]
                              else None),
       pl_matrixEntry = (\<lambda>p. if p = ''repo/c.txt'' then Some Added else None),
       pl_getRoot = (\<lambda>p. if take 4 p = ''repo'' then Some ''repo'' else None),
       pl_worktreeDir = (\<lambda>p. None),
       pl_shimStatusMatrix = (\<lambda>p. None) \<rparr>"

section \<open>Git configuration (\<^verbatim>\<open>getConfig\<close>, \<^verbatim>\<open>setConfig\<close>)\<close>

text \<open>
  The values a parsed git-config file holds (\<^verbatim>\<open>parse-git-config\<close> reads the file with
  \<^verbatim>\<open>ini\<close>, which turns \<^verbatim>\<open>true\<close>, \<^verbatim>\<open>false\<close> and \<^verbatim>\<open>null\<close> into JavaScript values and
  sections into nested objects) and the values \<^verbatim>\<open>setConfig\<close> accepts. An object is an
  association list in insertion order.
\<close>

datatype jsval =
    JStr string
  | JBool bool
  | JNum int
  | JNull
  | JObj "(string \<times> jsval) list"

text \<open>JavaScript truthiness; \<open>None\<close> is \<^verbatim>\<open>null\<close> or \<^verbatim>\<open>undefined\<close>.\<close>

fun truthy_val :: "jsval option \<Rightarrow> bool" where
  "truthy_val None = False"
| "truthy_val (Some (JStr s)) = (s \<noteq> [])"
| "truthy_val (Some (JBool b)) = b"
| "truthy_val (Some (JNum n)) = (n \<noteq> 0)"
| "truthy_val (Some JNull) = False"
| "truthy_val (Some (JObj kvs)) = True"

text \<open>
  The path segments of \<^verbatim>\<open>dot-prop\<close>: the key path split at every dot (escaped dots are
  not modelled).
\<close>

fun pathSegments_acc :: "string \<Rightarrow> string \<Rightarrow> string list" where
  "pathSegments_acc acc [] = [rev acc]"
| "pathSegments_acc acc (c # cs) =
     (if c = CHR ''.'' then rev acc # pathSegments_acc [] cs
      else pathSegments_acc (c # acc) cs)"

definition pathSegments :: "string \<Rightarrow> string list" where
  "pathSegments path = pathSegments_acc [] path"

text \<open>Walking an object along the segments; \<open>None\<close> when a segment is missing.\<close>

fun lookupPath :: "jsval \<Rightarrow> string list \<Rightarrow> jsval option" where
  "lookupPath v [] = Some v"
| "lookupPath (JObj kvs) (k # ks) =
     (case map_of kvs k of None \<Rightarrow> None | Some v \<Rightarrow> lookupPath v ks)"
| "lookupPath v (k # ks) = None"

text \<open>\<^verbatim>\<open>dotProp.has\<close> and \<^verbatim>\<open>dotProp.get\<close>\<close>

definition hasProperty :: "jsval \<Rightarrow> string \<Rightarrow> bool" where
  "hasProperty obj path = (lookupPath obj (pathSegments path) \<noteq> None)"

definition getProperty :: "jsval \<Rightarrow> string \<Rightarrow> jsval option" where
  "getProperty obj path = lookupPath obj (pathSegments path)"

text \<open>
  \<^verbatim>\<open>dotProp.set\<close>: objects are created along the path where there is none, the last
  segment is assigned; a new key goes to the end of its object.
\<close>

fun setPath :: "jsval \<Rightarrow> string list \<Rightarrow> jsval \<Rightarrow> jsval" where
  "setPath (JObj kvs) [k] v = JObj (AList.update k v kvs)"
| "setPath (JObj kvs) (k # k' # ks) v =
     JObj (AList.update k
             (setPath (case map_of kvs k of Some (JObj sub) \<Rightarrow> JObj sub | _ \<Rightarrow> JObj [])
                (k' # ks) v)
             kvs)"
| "setPath obj ks v = obj"

definition setProperty :: "jsval \<Rightarrow> string \<Rightarrow> jsval \<Rightarrow> jsval" where
  "setProperty obj path v = setPath obj (pathSegments path) v"

text \<open>
  \<^verbatim>\<open>dotProp.delete\<close>: the last segment is deleted from its object; nothing happens
  when the path leaves the objects before.
\<close>

fun deletePath :: "jsval \<Rightarrow> string list \<Rightarrow> jsval" where
  "deletePath (JObj kvs) [k] = JObj (AList.delete k kvs)"
| "deletePath (JObj kvs) (k # k' # ks) =
     (case map_of kvs k of
        Some (JObj sub) \<Rightarrow> JObj (AList.update k (deletePath (JObj sub) (k' # ks)) kvs)
      | _ \<Rightarrow> JObj kvs)"
| "deletePath obj ks = obj"

definition deleteProperty :: "jsval \<Rightarrow> string \<Rightarrow> jsval" where
  "deleteProperty obj path = deletePath obj (pathSegments path)"

text \<open>
  What the configuration functions ask of their surroundings:
  \<^verbatim>\<open>worktree.isLinkedWorktree({gitdir})\<close> and \<^verbatim>\<open>worktree.resolveLinkToRoot(dir)\<close>
  (git-worktree), for the old-git variant the \<^verbatim>\<open>gitdir\<close> of \<^verbatim>\<open>getWorktreePaths(gitdir)\<close>,
  Node's \<^verbatim>\<open>path.join\<close> and \<^verbatim>\<open>path.resolve\<close> (of the list of its arguments),
  \<^verbatim>\<open>getGitConfigPath('global')\<close> (\<open>None\<close>
  when there is no global file), \<^verbatim>\<open>parse({path})\<close> of parse-git-config (\<open>None\<close> when the
  file is missing or cannot be read), \<^verbatim>\<open>parse.expandKeys\<close> and \<^verbatim>\<open>ini.stringify\<close>.
\<close>

record config_env =
  ce_isLinkedWorktree :: "string \<Rightarrow> bool"
  ce_resolveLinkToRoot :: "string \<Rightarrow> string option"
  ce_worktreeGitdir :: "string \<Rightarrow> string option"
  ce_join :: "string \<Rightarrow> string \<Rightarrow> string"
  ce_resolve :: "string list \<Rightarrow> string"
  ce_globalConfigPath :: "string option"
  ce_parse :: "string \<Rightarrow> jsval option"
  ce_expandKeys :: "jsval \<Rightarrow> jsval"
  ce_stringify :: "jsval \<Rightarrow> string"

datatype scope = Local | Global

text \<open>\<^verbatim>\<open>GitConfig\<close>: \<^verbatim>\<open>{scope: 'none'}\<close>, or a scope with the value and perhaps the origin.\<close>

datatype GitConfig = ScopeNone | Scoped scope jsval "string option"

record getConfig_args =
  gc_dir :: string
  gc_gitdir :: "string option"
  gc_keyPath :: string
  gc_local :: "bool option"
  gc_global :: "bool option"
  gc_showOrigin :: "bool option"

text \<open>The closure \<^verbatim>\<open>readConfigValue\<close> of \<^verbatim>\<open>getConfig\<close>.\<close>

definition readConfigValue :: "config_env \<Rightarrow> string option \<Rightarrow> string \<Rightarrow> jsval option" where
  "readConfigValue env configPath key =
     (if \<not> truthy configPath then None
      else (case configPath of
              None \<Rightarrow> None
            | Some p \<Rightarrow>
                (case ce_parse env p of
                   None \<Rightarrow> None
                 | Some configFile \<Rightarrow>
                     (let config = ce_expandKeys env configFile
                      in if hasProperty config key then getProperty config key else None))))"

text \<open>The last three statements of \<^verbatim>\<open>getConfig\<close>, the same in both versions.\<close>

definition configResult ::
  "bool \<Rightarrow> jsval option \<Rightarrow> string option \<Rightarrow> jsval option \<Rightarrow> string option \<Rightarrow> GitConfig" where
  "configResult showOrigin localValue localConfigPath globalValue globalConfigPath =
     (if truthy_val localValue then
        (case localValue of
           Some v \<Rightarrow> Scoped Local v (if showOrigin then localConfigPath else None)
         | None \<Rightarrow> ScopeNone)
      else if truthy_val globalValue then
        (case globalValue of
           Some v \<Rightarrow> Scoped Global v (if showOrigin then globalConfigPath else None)
         | None \<Rightarrow> ScopeNone)
      else ScopeNone)"

text \<open>\<^verbatim>\<open>getConfig\<close> of \<^verbatim>\<open>containers/git-porcelain.ts\<close>.\<close>

definition getConfig :: "config_env \<Rightarrow> getConfig_args \<Rightarrow> GitConfig" where
  "getConfig env args =
     (let dir = gc_dir args;
          gitdir = param_default (gc_gitdir args) (ce_join env dir ''.git'');
          keyPath = gc_keyPath args;
          local = param_default (gc_local args) True;
          global = param_default (gc_global args) True;
          showOrigin = param_default (gc_showOrigin args) False;
          root = (if ce_isLinkedWorktree env gitdir then ce_resolveLinkToRoot env dir
                  else Some dir);
          localConfigPath = (case root of
                               Some r \<Rightarrow> if local \<and> r \<noteq> []
                                         then Some (ce_resolve env [r, ''.git/config''])
                                         else None
                             | None \<Rightarrow> None);
          globalConfigPath = (if global then ce_globalConfigPath env else None);
          localValue = (if local then readConfigValue env localConfigPath keyPath else None);
          globalValue = (if global then readConfigValue env globalConfigPath keyPath else None)
      in configResult showOrigin localValue localConfigPath globalValue globalConfigPath)"

text \<open>\<^verbatim>\<open>getConfig\<close> of \<^verbatim>\<open>containers/old-git/git-porcelain.ts\<close>.\<close>

definition old_getConfig :: "config_env \<Rightarrow> getConfig_args \<Rightarrow> GitConfig" where
  "old_getConfig env args =
     (let dir = gc_dir args;
          gitdir = param_default (gc_gitdir args) (ce_join env dir ''.git'');
          keyPath = gc_keyPath args;
          local = param_default (gc_local args) True;
          global = param_default (gc_global args) True;
          showOrigin = param_default (gc_showOrigin args) False;
          worktree_gitdir = ce_worktreeGitdir env gitdir;
          localConfigPath = (case worktree_gitdir of
                               Some g \<Rightarrow> if local \<and> g \<noteq> []
                                         then Some (ce_resolve env [ce_join env g ''config''])
                                         else None
                             | None \<Rightarrow> None);
          globalConfigPath = (if global then ce_globalConfigPath env else None);
          localValue = (if local then readConfigValue env localConfigPath keyPath else None);
          globalValue = (if global then readConfigValue env globalConfigPath keyPath else None)
      in configResult showOrigin localValue localConfigPath globalValue globalConfigPath)"

record setConfig_args =
  sc_dir :: string
  sc_gitdir :: "string option"
  sc_scope :: scope
  sc_keyPath :: string
  sc_value :: "jsval option"

text \<open>
  Both versions of \<^verbatim>\<open>setConfig\<close> from the resolved \<^verbatim>\<open>configPath\<close> on: the result
  (\<open>None\<close> is \<^verbatim>\<open>null\<close>) and the files written, as path and contents.
\<close>

definition writeConfig ::
  "config_env \<Rightarrow> string option \<Rightarrow> string \<Rightarrow> jsval option \<Rightarrow> string option \<times> (string \<times> string) list"
  where
  "writeConfig env configPath keyPath val =
     (case configPath of
        None \<Rightarrow> (None, [])
      | Some p \<Rightarrow>
          if p = [] then (None, [])
          else (case ce_parse env p of
                  None \<Rightarrow> (None, [])
                | Some configFile \<Rightarrow>
                    (let updated = (case val of
                                      None \<Rightarrow> deleteProperty configFile keyPath
                                    | Some v \<Rightarrow> setProperty configFile keyPath v);
                         updatedConfig = ce_stringify env updated
                     in (Some updatedConfig, [(p, updatedConfig)]))))"

text \<open>\<^verbatim>\<open>setConfig\<close> of \<^verbatim>\<open>containers/git-porcelain.ts\<close>.\<close>

definition setConfig ::
  "config_env \<Rightarrow> setConfig_args \<Rightarrow> string option \<times> (string \<times> string) list" where
  "setConfig env args =
     (let dir = sc_dir args;
          gitdir = param_default (sc_gitdir args) (ce_join env dir ''.git'');
          root = (if ce_isLinkedWorktree env gitdir then ce_resolveLinkToRoot env dir
                  else Some dir);
          configPath = (if sc_scope args = Local \<and> truthy root
                        then (case root of
                                Some r \<Rightarrow> Some (ce_resolve env [r, ''.git/config''])
                              | None \<Rightarrow> None)
                        else ce_globalConfigPath env)
      in writeConfig env configPath (sc_keyPath args) (sc_value args))"

text \<open>\<^verbatim>\<open>setConfig\<close> of \<^verbatim>\<open>containers/old-git/git-porcelain.ts\<close>.\<close>

definition old_setConfig ::
  "config_env \<Rightarrow> setConfig_args \<Rightarrow> string option \<times> (string \<times> string) list" where
  "old_setConfig env args =
     (let dir = sc_dir args;
          gitdir = param_default (sc_gitdir args) (ce_join env dir ''.git'');
          worktree_gitdir = ce_worktreeGitdir env gitdir;
          configPath = (if sc_scope args = Local \<and> truthy worktree_gitdir
                        then (case worktree_gitdir of
                                Some g \<Rightarrow> Some (ce_resolve env [ce_join env g ''config''])
                              | None \<Rightarrow> None)
                        else ce_globalConfigPath env)
      in writeConfig env configPath (sc_keyPath args) (sc_value args))"

text \<open>
  A repository \<^verbatim>\<open>repo\<close> whose local configuration has the \<^verbatim>\<open>[core]\<close> section of the
  test fixtures (with \<^verbatim>\<open>bare = false\<close>) and an empty \<^verbatim>\<open>user.name\<close>; a global
  configuration with a user name and email; a directory \<^verbatim>\<open>plain\<close> outside every
  repository; a linked worktree \<^verbatim>\<open>wt\<close> whose link does not resolve to a root. The
  serializer \<^verbatim>\<open>ini.stringify\<close> is left open.
\<close>

definition example_local_config :: jsval where
  "example_local_config =
     JObj [(''core'', JObj [(''repositoryformatversion'', JStr ''0''),
                            (''filemode'', JBool True),
                            (''bare'', JBool False),
                            (''logallrefupdates'', JBool True)]),
           (''user'', JObj [(''name'', JStr [])])]"

definition example_global_config :: jsval where
  "example_global_config =
     JObj [(''user'', JObj [(''name'', JStr ''Global Dev''),
                            (''email'', JStr ''dev@example.org'')])]"

definition example_config_env :: "(jsval \<Rightarrow> string) \<Rightarrow> config_env" where
  "example_config_env stringify =
     \<lparr> ce_isLinkedWorktree = (\<lambda>gitdir. gitdir = ''wt/.git''),
       ce_resolveLinkToRoot = (\<lambda>dir. None),
       ce_worktreeGitdir = (\<lambda>gitdir. if gitdir = ''repo/.git'' then Some ''repo/.git'' else None),
       ce_join = (\<lambda>a b. a @ ''/'' @ b),
       ce_resolve = (\<lambda>segments. case segments of
                        [a] \<Rightarrow> ''/work/'' @ a
                      | [a, b] \<Rightarrow> ''/work/'' @ a @ ''/'' @ b
                      | _ \<Rightarrow> ''/work''),
       ce_globalConfigPath = Some ''/home/dev/.gitconfig'',
       ce_parse = (\<lambda>p. if p = ''/work/repo/.git/config'' then Some example_local_config
                        else if p = ''/home/dev/.gitconfig'' then Some example_global_config
                        else None),
       ce_expandKeys = (\<lambda>config. config),
       ce_stringify = stringify \<rparr>"

section \<open>Linked worktrees (\<^verbatim>\<open>WorktreeManager.remove\<close>)\<close>

text \<open>
  A path is the list of its components; a file system is the list of the paths that exist
  (files and directories); \<^verbatim>\<open>extractStats\<close> of the tests resolves to a value exactly for
  an existing path.
\<close>

type_synonym path = "string list"

type_synonym filesystem = "path list"

definition extractStats :: "filesystem \<Rightarrow> path \<Rightarrow> unit option" where
  "extractStats fs p = (if p \<in> set fs then Some () else None)"

text \<open>The \<^verbatim>\<open>Worktree\<close> record of the tests.\<close>

record Worktree =
  wt_id :: string
  wt_path :: path
  wt_bare :: bool
  wt_detached :: bool
  wt_main :: bool
  wt_ref :: string
  wt_rev :: string

datatype fs_error = FilesystemIOFailure path

text \<open>
  What \<open>remove\<close> learns from its surroundings: whether the status check finds the worktree
  dirty, the \<^verbatim>\<open>gitdir\<close> of the main repository and the name of the worktree's
  administrative directory below \<^verbatim>\<open>gitdir/worktrees\<close>, and whether deleting a path fails.
\<close>

record worktree_env =
  we_dirty :: "path \<Rightarrow> bool"
  we_gitdir :: "path \<Rightarrow> path"
  we_name :: "path \<Rightarrow> string"
  we_io_fails :: "path \<Rightarrow> bool"

text \<open>\<^verbatim>\<open><gitdir>/worktrees/<name>\<close> and \<^verbatim>\<open><gitdir>/refs/heads/<ref>\<close>\<close>

definition adminDir :: "worktree_env \<Rightarrow> Worktree \<Rightarrow> path" where
  "adminDir env wt = we_gitdir env (wt_path wt) @ [''worktrees'', we_name env (wt_path wt)]"

definition branchRef :: "worktree_env \<Rightarrow> Worktree \<Rightarrow> path" where
  "branchRef env wt = we_gitdir env (wt_path wt) @ [''refs'', ''heads'', wt_ref wt]"

text \<open>Recursive deletion of a path: the path and everything below it goes, or it fails.\<close>

definition fs_delete :: "worktree_env \<Rightarrow> path \<Rightarrow> filesystem \<Rightarrow> fs_error + filesystem" where
  "fs_delete env p fs =
     (if we_io_fails env p then Inl (FilesystemIOFailure p)
      else Inr (filter (\<lambda>q. \<not> prefix p q) fs))"

text \<open>
  Modelled from the spec: \<^verbatim>\<open>remove\<close> of \<^verbatim>\<open>containers/git-worktree.ts\<close>, which is not
  among the sources; only its tests (\<^verbatim>\<open>__test__/git-worktree.spec.ts\<close>) are. Section 4.2
  of the specification is followed sentence by sentence: nothing happens for the main
  worktree; nothing happens for a dirty worktree without \<^verbatim>\<open>force\<close>; if the worktree is
  clean, or dirty with \<^verbatim>\<open>force\<close>, the working directory is deleted, the administrative
  directory \<^verbatim>\<open><gitdir>/worktrees/<name>\<close> is deleted and the branch ref
  \<^verbatim>\<open>refs/heads/<ref>\<close> is deleted, unconditionally once this path is taken; a file system
  error is fatal and nothing is cleaned up.
\<close>

definition remove ::
  "worktree_env \<Rightarrow> Worktree \<Rightarrow> bool option \<Rightarrow> filesystem \<Rightarrow> fs_error + filesystem" where
  "remove env wt forceArg fs =
     (let force = param_default forceArg False
      in if wt_main wt then Inr fs
         else if we_dirty env (wt_path wt) \<and> \<not> force then Inr fs
         else
           (case fs_delete env (wt_path wt) fs of
              Inl e \<Rightarrow> Inl e
            | Inr fs1 \<Rightarrow>
                (case fs_delete env (adminDir env wt) fs1 of
                   Inl e \<Rightarrow> Inl e
                 | Inr fs2 \<Rightarrow> fs_delete env (branchRef env wt) fs2)))"

text \<open>
  The file system of the \<^verbatim>\<open>git-worktree.remove\<close> tests (the entries the tests look at,
  and their parents): the repository \<^verbatim>\<open>baseRepo\<close> with the branches \<^verbatim>\<open>master\<close> and
  \<^verbatim>\<open>foo\<close>, and the linked worktree \<^verbatim>\<open>foo\<close>.
\<close>

definition test_fs :: filesystem where
  "test_fs =
     [[''baseRepo''],
      [''baseRepo'', ''.git''],
      [''baseRepo'', ''.git'', ''HEAD''],
      [''baseRepo'', ''.git'', ''config''],
      [''baseRepo'', ''.git'', ''refs''],
      [''baseRepo'', ''.git'', ''refs'', ''heads''],
      [''baseRepo'', ''.git'', ''refs'', ''heads'', ''master''],
      [''baseRepo'', ''.git'', ''refs'', ''heads'', ''foo''],
      [''baseRepo'', ''.git'', ''worktrees''],
      [''baseRepo'', ''.git'', ''worktrees'', ''foo''],
      [''baseRepo'', ''.git'', ''worktrees'', ''foo'', ''HEAD''],
      [''baseRepo'', ''.git'', ''worktrees'', ''foo'', ''ORIG_HEAD''],
      [''baseRepo'', ''.git'', ''worktrees'', ''foo'', ''commondir''],
      [''baseRepo'', ''.git'', ''worktrees'', ''foo'', ''gitdir''],
      [''foo''],
      [''foo'', ''.git''],
      [''foo'', ''bar'']]"

definition linkedWorktree :: Worktree where
  "linkedWorktree =
     \<lparr> wt_id = ''19'', wt_path = [''foo''], wt_bare = False, wt_detached = False,
       wt_main = False, wt_ref = ''foo'',
       wt_rev = ''f204b02baf1322ee079fe9768e9593509d683412'' \<rparr>"

text \<open>The surroundings of the tests, by the mocked status (\<open>dirty\<close>).\<close>

definition test_env :: "bool \<Rightarrow> worktree_env" where
  "test_env dirty =
     \<lparr> we_dirty = (\<lambda>p. dirty),
       we_gitdir = (\<lambda>p. [''baseRepo'', ''.git'']),
       we_name = (\<lambda>p. ''foo''),
       we_io_fails = (\<lambda>p. False) \<rparr>"

section \<open>\<^verbatim>\<open>clone\<close> and \<^verbatim>\<open>checkout\<close> of \<^verbatim>\<open>containers/old-git/git-porcelain.ts\<close>\<close>


















section \<open>Theorems\<close>

subsection \<open>What \<^verbatim>\<open>processStatusCode\<close> computes\<close>

lemma test_unmerged_two_chars:
  "\<not> isLineTerminator x \<Longrightarrow> \<not> isLineTerminator y \<Longrightarrow>
   test re_unmerged [x, y] =
     ((x = CHR ''D'' \<and> y = CHR ''D'') \<or> (x = CHR ''A'' \<and> y = CHR ''A'')
      \<or> x = CHR ''U'' \<or> y = CHR ''U'')"
  by (auto simp add: re_unmerged_def)

lemma test_staged_two_chars:
  "test (re_staged c) [x, y] = (x = c \<and> y \<in> set '' MTD'')"
  by (auto simp add: re_staged_def)

lemma test_unstaged_two_chars:
  "test (re_unstaged c) [x, y] = ((x = c \<or> y = c) \<and> c \<in> set '' MTD'')"
  by (auto simp add: re_unstaged_def)

text \<open>
  The status of every two-character code without a line terminator, as the code computes
  it: an \<^verbatim>\<open>M\<close> in either position that is not a staged modification gives
  \<^verbatim>\<open>*modified\<close>, whatever the other character is, likewise a \<^verbatim>\<open>D\<close> gives
  \<^verbatim>\<open>*deleted\<close>, and there is no case for \<^verbatim>\<open>*added\<close>.
\<close>

lemma processStatusCode_two_chars:
  assumes "\<not> isLineTerminator x" and "\<not> isLineTerminator y"
  shows "processStatusCode (Some [x, y]) =
     (if x = CHR ''!'' \<and> y = CHR ''!'' then (Ignored, [])
      else if x = CHR ''?'' \<and> y = CHR ''?'' then (Absent, [])
      else if (x = CHR ''D'' \<and> y = CHR ''D'') \<or> (x = CHR ''A'' \<and> y = CHR ''A'')
              \<or> x = CHR ''U'' \<or> y = CHR ''U'' then (Unmerged, [])
      else if x = CHR ''M'' \<and> y \<in> set '' MTD'' then (Modified, [])
      else if x = CHR ''M'' \<or> y = CHR ''M'' then (StarModified, [])
      else if x = CHR ''A'' \<and> y \<in> set '' MTD'' then (Added, [])
      else if x = CHR ''D'' \<and> y \<in> set '' MTD'' then (Deleted, [])
      else if x = CHR ''D'' \<or> y = CHR ''D'' then (StarDeleted, [])
      else (Unmodified,
            [''Unable to convert '' @ [CHR 0x27] @ [x, y] @ [CHR 0x27] @ '' status code'']))"
  unfolding processStatusCode_def option.case test_unmerged_two_chars [OF assms]
    test_staged_two_chars test_unstaged_two_chars
  by simp

text \<open>The pattern \<^verbatim>\<open>/(?=[ MTD])A/\<close> matches no string at all.\<close>

lemma rmatch_unstaged_A: "rmatch (re_unstaged CHR ''A'') s = []"
  by (cases s) (auto simp add: re_unstaged_def)

lemma test_unstaged_A: "\<not> test (re_unstaged CHR ''A'') s"
  by (induction s) (simp_all add: rmatch_unstaged_A)

lemma processStatusCode_never_StarAdded: "fst (processStatusCode c) \<noteq> StarAdded"
  by (simp add: processStatusCode_def test_unstaged_A split: option.split)

lemma processStatusCode_space_A:
  "processStatusCode (Some '' A'') =
     (Unmodified, [''Unable to convert '' @ [CHR 0x27] @ '' A'' @ [CHR 0x27] @ '' status code''])"
  by (simp add: processStatusCode_two_chars isLineTerminator_def)

lemma processStatusCode_AM: "processStatusCode (Some ''AM'') = (StarModified, [])"
  by (simp add: processStatusCode_two_chars isLineTerminator_def)

lemma processStatusCode_space_M: "processStatusCode (Some '' M'') = (StarModified, [])"
  by (simp add: processStatusCode_two_chars isLineTerminator_def)

lemma processStatusCode_UU: "processStatusCode (Some ''UU'') = (Unmerged, [])"
  by (simp add: processStatusCode_two_chars isLineTerminator_def)

text \<open>
  C2. The table of section 4.3 maps the code \<^verbatim>\<open>" A"\<close> (A in the Y position) to
  \<^verbatim>\<open>*added\<close> and \<^verbatim>\<open>"AM"\<close> (A in X, Y among space/M/T/D) to \<^verbatim>\<open>added\<close>. The code
  returns \<^verbatim>\<open>unmodified\<close> with a diagnostic for the first and \<^verbatim>\<open>*modified\<close> for the
  second, and it returns \<^verbatim>\<open>*added\<close> for no input at all: the lookahead of
  \<^verbatim>\<open>/(?=[ MTD])A/\<close> inspects the very character that must be \<^verbatim>\<open>A\<close>, so the pattern
  never matches, and \<^verbatim>\<open>/(?=[ MTD])M/\<close> matches every \<^verbatim>\<open>M\<close>.
\<close>

theorem processStatusCode_table_divergence:
  "processStatusCode (Some '' A'') =
     (Unmodified, [''Unable to convert '' @ [CHR 0x27] @ '' A'' @ [CHR 0x27] @ '' status code''])
   \<and> processStatusCode (Some ''AM'') = (StarModified, [])
   \<and> (\<forall>c. fst (processStatusCode c) \<noteq> StarAdded)"
  by (simp add: processStatusCode_space_A processStatusCode_AM processStatusCode_never_StarAdded)

subsection \<open>\<^verbatim>\<open>fileStatus\<close>\<close>

text \<open>
  C9. For a filepath under version control (\<^verbatim>\<open>getRoot\<close> finds a root, and finds one for
  that root), \<^verbatim>\<open>worktreeStatus\<close> of the root yields a status output and \<^verbatim>\<open>fileStatus\<close> is
  defined: for a directory it is \<^verbatim>\<open>ignored\<close> when the directory is not the root and the
  ignore rules match its path relative to the root, and otherwise \<^verbatim>\<open>unmodified\<close>,
  \<^verbatim>\<open>modified\<close> or \<^verbatim>\<open>unmerged\<close> as the aggregate status is clean, uncommitted or
  unmerged; for a file it is the status of the first entry of \<^verbatim>\<open>worktreeStatus\<close> whose
  path equals the relative path, and \<^verbatim>\<open>unmodified\<close> when there is none.
\<close>

theorem fileStatus_under_version_control:
  assumes "getRoot env filepath = Some root" and "root \<noteq> []"
    and "getRoot env root = Some r" and "r \<noteq> []"
  shows "\<exists>bs log. worktreeStatus env root (Some filepath) False = (Some bs, log)
     \<and> so_status bs = branchStatus (so_entries bs)
     \<and> fst (fileStatus env filepath) =
         Some (if isDirectory env filepath then
                 (if \<not> isEqualPaths env root filepath
                      \<and> ignores env root (relative env root filepath) then Ignored
                  else (case so_status bs of
                          Clean \<Rightarrow> Unmodified
                        | Uncommitted \<Rightarrow> Modified
                        | BranchUnmerged \<Rightarrow> Unmerged))
               else (case find (\<lambda>e. isEqualPaths env (fst e) (relative env root filepath))
                            (so_entries bs) of
                       None \<Rightarrow> Unmodified
                     | Some e \<Rightarrow> snd e))"
proof -
  obtain bs log where w: "worktreeStatus env root (Some filepath) False = (Some bs, log)"
    and st: "so_status bs = branchStatus (so_entries bs)"
    using assms(3,4) by (simp add: worktreeStatus_def Let_def)
  have "fst (fileStatus env filepath) =
         Some (if isDirectory env filepath then
                 (if \<not> isEqualPaths env root filepath
                      \<and> ignores env root (relative env root filepath) then Ignored
                  else (case so_status bs of
                          Clean \<Rightarrow> Unmodified
                        | Uncommitted \<Rightarrow> Modified
                        | BranchUnmerged \<Rightarrow> Unmerged))
               else (case find (\<lambda>e. isEqualPaths env (fst e) (relative env root filepath))
                            (so_entries bs) of
                       None \<Rightarrow> Unmodified
                     | Some e \<Rightarrow> snd e))"
    using assms(1,2) w
    by (simp add: fileStatus_def Let_def split: BranchStatus.split option.split)
  with w st show ?thesis by blast
qed

lemma example_worktreeStatus:
  "worktreeStatus example_status_env ''repo'' (Some p) False =
     (Some \<lparr> so_ref = [], so_root = ''repo'', so_status = BranchUnmerged, so_bare = True,
              so_entries = [(''a.txt'', StarModified), (''b.txt'', Unmerged)] \<rparr>, [])"
  by (simp add: worktreeStatus_def example_status_env_def statusEntry_def branchStatus_def
      processStatusCode_space_M processStatusCode_UU truthy_def Let_def)

lemma example_status_env_sel:
  "getRoot example_status_env ''repo/a.txt'' = Some ''repo''"
  "getRoot example_status_env ''repo'' = Some ''repo''"
  "getRoot example_status_env ''repo/build'' = Some ''repo''"
  "isDirectory example_status_env ''repo/a.txt'' = False"
  "isDirectory example_status_env ''repo'' = True"
  "isDirectory example_status_env ''repo/build'' = True"
  "isEqualPaths example_status_env ''repo'' ''repo'' = True"
  "isEqualPaths example_status_env ''repo'' ''repo/build'' = False"
  "relative example_status_env ''repo'' ''repo/a.txt'' = ''a.txt''"
  "relative example_status_env ''repo'' ''repo/build'' = ''build''"
  "ignores example_status_env ''repo'' ''build'' = True"
  "isEqualPaths example_status_env ''a.txt'' ''a.txt'' = True"
  by (simp_all add: example_status_env_def)

theorem fileStatus_under_version_control_witness:
  "getRoot example_status_env ''repo/a.txt'' = Some ''repo''
   \<and> getRoot example_status_env ''repo'' = Some ''repo''
   \<and> getRoot example_status_env ''repo/build'' = Some ''repo''
   \<and> fst (fileStatus example_status_env ''repo/a.txt'') = Some StarModified
   \<and> fst (fileStatus example_status_env ''repo'') = Some Unmerged
   \<and> fst (fileStatus example_status_env ''repo/build'') = Some Ignored"
proof -
  have "fst (fileStatus example_status_env ''repo/a.txt'') = Some StarModified"
    using fileStatus_under_version_control [OF example_status_env_sel(1) _ example_status_env_sel(2)]
    by (simp add: example_worktreeStatus example_status_env_sel)
  moreover have "fst (fileStatus example_status_env ''repo'') = Some Unmerged"
    using fileStatus_under_version_control [OF example_status_env_sel(2) _ example_status_env_sel(2)]
    by (simp add: example_worktreeStatus example_status_env_sel)
  moreover have "fst (fileStatus example_status_env ''repo/build'') = Some Ignored"
    using fileStatus_under_version_control [OF example_status_env_sel(3) _ example_status_env_sel(2)]
    by (simp add: example_worktreeStatus example_status_env_sel)
  ultimately show ?thesis
    by (simp add: example_status_env_sel)
qed

text \<open>
  C4. With neither \<^verbatim>\<open>ref\<close> nor \<^verbatim>\<open>noUpdateHead\<close> supplied, \<^verbatim>\<open>checkout\<close> passes
  \<^verbatim>\<open>noUpdateHead = false\<close> (and \<^verbatim>\<open>ref = 'HEAD'\<close>) to the library: the default
  \<^verbatim>\<open>ref === undefined\<close> is evaluated after \<open>ref\<close> received its own default.
\<close>

theorem checkout_noUpdateHead_default:
  "ic_noUpdateHead (checkout join \<lparr> co_dir = dir, co_gitdir = gitdir, co_ref = None,
       co_filepaths = filepaths, co_remote = remote, co_noCheckout = noCheckout,
       co_noUpdateHead = None, co_dryRun = dryRun, co_force = force \<rparr>) = False
   \<and> ic_ref (checkout join \<lparr> co_dir = dir, co_gitdir = gitdir, co_ref = None,
       co_filepaths = filepaths, co_remote = remote, co_noCheckout = noCheckout,
       co_noUpdateHead = None, co_dryRun = dryRun, co_force = force \<rparr>) = ''HEAD''"
  by (simp add: checkout_def param_default_def is_undefined_def)



subsection \<open>\<^verbatim>\<open>clone\<close>\<close>














text \<open>
  C10, as stated, fails: with \<^verbatim>\<open>user.name\<close> unset and \<^verbatim>\<open>user.email\<close> configured, a
  real merge (\<^verbatim>\<open>dryRun = false\<close>) runs under the name \<^verbatim>\<open>Mr. Test\<close> but with the
  configured email, not with \<^verbatim>\<open>mrtest@example.com\<close>.
\<close>

theorem merge_placeholder_counterexample:
  "config_missing (example_email_only ''repo'' ''user.name'')
   \<and> im_dryRun (fst (merge example_email_only id ''repo'' ''main'' ''feature'' (Some False))) = False
   \<and> im_author_name (fst (merge example_email_only id ''repo'' ''main'' ''feature'' (Some False)))
        = ''Mr. Test''
   \<and> im_author_email (fst (merge example_email_only id ''repo'' ''main'' ''feature'' (Some False)))
        = ''dev@example.org''
   \<and> im_author_email (fst (merge example_email_only id ''repo'' ''main'' ''feature'' (Some False)))
        \<noteq> ''mrtest@example.com''"
  by (simp add: merge_def example_email_only_def config_missing_def value_or_def truthy_def
      param_default_def Let_def)

text \<open>
  C10, amended. \<^verbatim>\<open>merge\<close> replaces each of the two author fields on its own: the name
  is \<^verbatim>\<open>Mr. Test\<close> exactly when \<^verbatim>\<open>user.name\<close> is unset or empty and the configured name
  otherwise, the email is \<^verbatim>\<open>mrtest@example.com\<close> exactly when \<^verbatim>\<open>user.email\<close> is unset
  or empty and the configured email otherwise, whatever \<^verbatim>\<open>dryRun\<close> is (it is passed on,
  \<^verbatim>\<open>false\<close> by default). \<^verbatim>\<open>missingConfigs\<close> lists exactly the missing keys, in the
  order \<^verbatim>\<open>user.name\<close>, \<^verbatim>\<open>user.email\<close>, and is absent when neither is missing.
\<close>

theorem merge_placeholder_per_field:
  "im_author_name (fst (merge isogit_getConfig run_merge dir base compare dryRun)) =
     (if isogit_getConfig dir ''user.name'' = None \<or> isogit_getConfig dir ''user.name'' = Some []
      then ''Mr. Test'' else the (isogit_getConfig dir ''user.name''))
   \<and> im_author_email (fst (merge isogit_getConfig run_merge dir base compare dryRun)) =
     (if isogit_getConfig dir ''user.email'' = None \<or> isogit_getConfig dir ''user.email'' = Some []
      then ''mrtest@example.com'' else the (isogit_getConfig dir ''user.email''))
   \<and> im_dryRun (fst (merge isogit_getConfig run_merge dir base compare dryRun)) =
     (case dryRun of None \<Rightarrow> False | Some b \<Rightarrow> b)
   \<and> im_ours (fst (merge isogit_getConfig run_merge dir base compare dryRun)) = base
   \<and> im_theirs (fst (merge isogit_getConfig run_merge dir base compare dryRun)) = compare
   \<and> mo_mergeResult (snd (merge isogit_getConfig run_merge dir base compare dryRun)) =
        run_merge (fst (merge isogit_getConfig run_merge dir base compare dryRun))
   \<and> mo_missingConfigs (snd (merge isogit_getConfig run_merge dir base compare dryRun)) =
     (if filter (\<lambda>k. isogit_getConfig dir k = None \<or> isogit_getConfig dir k = Some [])
           [''user.name'', ''user.email''] = []
      then None
      else Some (filter (\<lambda>k. isogit_getConfig dir k = None \<or> isogit_getConfig dir k = Some [])
           [''user.name'', ''user.email'']))"
proof -
  have m: "config_missing v = (v = None \<or> v = Some [])" for v
    by (cases v) (simp_all add: config_missing_def truthy_def)
  have v: "value_or v p = (if v = None \<or> v = Some [] then p else the v)" for v p
    by (cases v) (simp_all add: value_or_def)
  show ?thesis
    by (auto simp add: merge_def Let_def m v param_default_def split: option.split)
qed

theorem merge_placeholder_per_field_witness:
  "example_email_only ''repo'' ''user.name'' = None
   \<and> im_author_name (fst (merge example_email_only id ''repo'' ''main'' ''feature'' None))
        = ''Mr. Test''
   \<and> im_author_email (fst (merge example_email_only id ''repo'' ''main'' ''feature'' None))
        = ''dev@example.org''
   \<and> im_dryRun (fst (merge example_email_only id ''repo'' ''main'' ''feature'' None)) = False
   \<and> mo_missingConfigs (snd (merge example_email_only id ''repo'' ''main'' ''feature'' None))
        = Some [''user.name'']"
  using merge_placeholder_per_field [of example_email_only id "''repo''" "''main''" "''feature''" None]
  by (simp add: example_email_only_def)

text \<open>
  C5, as stated, fails: \<^verbatim>\<open>getStatus\<close> compares \<^verbatim>\<open>row[1]\<close> with \<^verbatim>\<open>row[2]\<close>, the HEAD
  status with the working-directory status, not with the stage status. For the matrix
  \<^verbatim>\<open>[['a.txt', 1, 2, 1]]\<close> (HEAD and stage agree) the directory is \<^verbatim>\<open>modified\<close>, and for
  \<^verbatim>\<open>[['sub/b.txt', 1, 1, 0]]\<close> (HEAD and stage differ) it is \<^verbatim>\<open>unmodified\<close>.
\<close>

theorem getStatus_stage_counterexample:
  "pl_isDirectory example_plumbing_env ''repo''
   \<and> pl_statusMatrix example_plumbing_env ''repo'' = Some [(''a.txt'', 1, 2, 1)]
   \<and> spec_collapse [(''a.txt'', 1, 2, 1)] = Unmodified
   \<and> getStatus example_plumbing_env ''repo'' = Some Modified
   \<and> old_getStatus example_plumbing_env ''repo'' = Some Modified
   \<and> pl_isDirectory example_plumbing_env ''repo/sub''
   \<and> pl_statusMatrix example_plumbing_env ''repo/sub'' = Some [(''sub/b.txt'', 1, 1, 0)]
   \<and> spec_collapse [(''sub/b.txt'', 1, 1, 0)] = Modified
   \<and> getStatus example_plumbing_env ''repo/sub'' = Some Unmodified
   \<and> old_getStatus example_plumbing_env ''repo/sub'' = Some Unmodified"
  by (simp add: getStatus_def old_getStatus_def example_plumbing_env_def spec_collapse_def
      row_head_def row_workdir_def row_stage_def row_filepath_def truthy_def Let_def)

text \<open>
  C5, amended. For a path that is not a directory both versions of \<^verbatim>\<open>getStatus\<close> return
  what \<^verbatim>\<open>matrixEntry\<close> returns. For a directory with a status matrix,
  \<^verbatim>\<open>getStatus\<close> is \<^verbatim>\<open>modified\<close> if the HEAD status of some row differs from its
  working-directory status and \<^verbatim>\<open>unmodified\<close> otherwise; the old-git version does the
  same for a directory of the main worktree, and returns \<^verbatim>\<open>undefined\<close> for a directory
  without a repository root.
\<close>

theorem getStatus_workdir_collapse:
  "(\<not> pl_isDirectory env filepath \<longrightarrow>
      getStatus env filepath = pl_matrixEntry env filepath
      \<and> old_getStatus env filepath = pl_matrixEntry env filepath)
   \<and> (pl_isDirectory env filepath \<and> pl_statusMatrix env filepath = Some rows \<longrightarrow>
      getStatus env filepath =
        Some (if \<exists>row \<in> set rows. row_head row \<noteq> row_workdir row then Modified else Unmodified))
   \<and> (pl_isDirectory env filepath \<and> truthy (pl_getRoot env filepath)
        \<and> \<not> truthy (pl_worktreeDir env filepath)
        \<and> pl_statusMatrix env filepath = Some rows \<longrightarrow>
      old_getStatus env filepath =
        Some (if \<exists>row \<in> set rows. row_head row \<noteq> row_workdir row then Modified else Unmodified))
   \<and> (pl_isDirectory env filepath \<and> \<not> truthy (pl_getRoot env filepath) \<longrightarrow>
      old_getStatus env filepath = None)"
proof -
  have f: "(filter P rows = []) = (\<not> (\<exists>row \<in> set rows. P row))" for P :: "StatusRow \<Rightarrow> bool"
    by (simp add: filter_empty_conv)
  show ?thesis
    by (simp add: getStatus_def old_getStatus_def Let_def f)
qed

theorem getStatus_workdir_collapse_witness:
  "\<not> pl_isDirectory example_plumbing_env ''repo/c.txt''
   \<and> getStatus example_plumbing_env ''repo/c.txt'' = Some Added
   \<and> pl_isDirectory example_plumbing_env ''repo''
   \<and> pl_statusMatrix example_plumbing_env ''repo'' = Some [(''a.txt'', 1, 2, 1)]
   \<and> truthy (pl_getRoot example_plumbing_env ''repo'')
   \<and> \<not> truthy (pl_worktreeDir example_plumbing_env ''repo'')
   \<and> getStatus example_plumbing_env ''repo'' = Some Modified
   \<and> old_getStatus example_plumbing_env ''repo'' = Some Modified
   \<and> pl_isDirectory example_plumbing_env ''repo/sub''
   \<and> getStatus example_plumbing_env ''repo/sub'' = Some Unmodified"
proof -
  have e: "pl_isDirectory example_plumbing_env ''repo/c.txt'' = False"
    "pl_isDirectory example_plumbing_env ''repo'' = True"
    "pl_isDirectory example_plumbing_env ''repo/sub'' = True"
    "pl_matrixEntry example_plumbing_env ''repo/c.txt'' = Some Added"
    "pl_statusMatrix example_plumbing_env ''repo'' = Some [(''a.txt'', 1, 2, 1)]"
    "pl_statusMatrix example_plumbing_env ''repo/sub'' = Some [(''sub/b.txt'', 1, 1, 0)]"
    "pl_getRoot example_plumbing_env ''repo'' = Some ''repo''"
    "pl_worktreeDir example_plumbing_env ''repo'' = None"
    by (simp_all add: example_plumbing_env_def)
  have "getStatus example_plumbing_env ''repo/c.txt'' = Some Added"
    using getStatus_workdir_collapse [of example_plumbing_env "''repo/c.txt''"]
    by (simp add: e)
  moreover have "getStatus example_plumbing_env ''repo'' = Some Modified
      \<and> old_getStatus example_plumbing_env ''repo'' = Some Modified"
    using getStatus_workdir_collapse [of example_plumbing_env "''repo''" "[(''a.txt'', 1, 2, 1)]"]
    by (simp add: e truthy_def row_head_def row_workdir_def)
  moreover have "getStatus example_plumbing_env ''repo/sub'' = Some Unmodified"
    using getStatus_workdir_collapse
      [of example_plumbing_env "''repo/sub''" "[(''sub/b.txt'', 1, 1, 0)]"]
    by (simp add: e row_head_def row_workdir_def)
  ultimately show ?thesis by (simp add: e truthy_def)
qed

lemma example_config_lookups:
  "hasProperty example_local_config ''core.bare'' = True"
  "getProperty example_local_config ''core.bare'' = Some (JBool False)"
  "hasProperty example_local_config ''user.name'' = True"
  "getProperty example_local_config ''user.name'' = Some (JStr [])"
  "hasProperty example_global_config ''core.bare'' = False"
  "hasProperty example_global_config ''user.name'' = True"
  "getProperty example_global_config ''user.name'' = Some (JStr ''Global Dev'')"
  by code_simp+

lemma example_config_paths:
  "ce_isLinkedWorktree (example_config_env str) (ce_join (example_config_env str) ''repo'' ''.git'') = False"
  "ce_isLinkedWorktree (example_config_env str) (ce_join (example_config_env str) ''plain'' ''.git'') = False"
  "ce_isLinkedWorktree (example_config_env str) (ce_join (example_config_env str) ''wt'' ''.git'') = True"
  "ce_resolveLinkToRoot (example_config_env str) d = None"
  "ce_worktreeGitdir (example_config_env str) (ce_join (example_config_env str) ''repo'' ''.git'') = Some ''repo/.git''"
  "ce_worktreeGitdir (example_config_env str) (ce_join (example_config_env str) ''plain'' ''.git'') = None"
  "ce_resolve (example_config_env str) [''repo'', ''.git/config''] = ''/work/repo/.git/config''"
  "ce_resolve (example_config_env str) [ce_join (example_config_env str) ''repo/.git'' ''config''] = ''/work/repo/.git/config''"
  "ce_globalConfigPath (example_config_env str) = Some ''/home/dev/.gitconfig''"
  "ce_parse (example_config_env str) ''/work/repo/.git/config'' = Some example_local_config"
  "ce_parse (example_config_env str) ''/home/dev/.gitconfig'' = Some example_global_config"
  "ce_expandKeys (example_config_env str) c = c"
  "ce_stringify (example_config_env str) = str"
  by (simp_all add: example_config_env_def)

text \<open>
  C6. The local configuration of \<^verbatim>\<open>repo\<close> contains \<^verbatim>\<open>core.bare\<close> (\<^verbatim>\<open>false\<close>) and
  \<^verbatim>\<open>user.name\<close> (empty); with both scopes searched, \<^verbatim>\<open>getConfig\<close> answers
  \<^verbatim>\<open>{scope: 'none'}\<close> for the first and the global value for the second: after
  \<^verbatim>\<open>dotProp.has\<close> found the key, \<^verbatim>\<open>if (localValue)\<close> discards a falsy value.
\<close>

theorem getConfig_falsy_local_value:
  "hasProperty example_local_config ''core.bare''
   \<and> getConfig (example_config_env str)
        \<lparr> gc_dir = ''repo'', gc_gitdir = None, gc_keyPath = ''core.bare'',
          gc_local = None, gc_global = None, gc_showOrigin = None \<rparr> = ScopeNone
   \<and> old_getConfig (example_config_env str)
        \<lparr> gc_dir = ''repo'', gc_gitdir = None, gc_keyPath = ''core.bare'',
          gc_local = None, gc_global = None, gc_showOrigin = None \<rparr> = ScopeNone
   \<and> hasProperty example_local_config ''user.name''
   \<and> getConfig (example_config_env str)
        \<lparr> gc_dir = ''repo'', gc_gitdir = None, gc_keyPath = ''user.name'',
          gc_local = None, gc_global = None, gc_showOrigin = None \<rparr>
        = Scoped Global (JStr ''Global Dev'') None
   \<and> old_getConfig (example_config_env str)
        \<lparr> gc_dir = ''repo'', gc_gitdir = None, gc_keyPath = ''user.name'',
          gc_local = None, gc_global = None, gc_showOrigin = None \<rparr>
        = Scoped Global (JStr ''Global Dev'') None"
  by (simp add: getConfig_def old_getConfig_def readConfigValue_def configResult_def
      param_default_def truthy_def Let_def example_config_paths example_config_lookups)

lemma example_global_update:
  "setProperty example_global_config ''user.name'' (JStr ''Local Dev'') =
     JObj [(''user'', JObj [(''name'', JStr ''Local Dev''),
                            (''email'', JStr ''dev@example.org'')])]"
  by code_simp

text \<open>
  C7. \<^verbatim>\<open>setConfig\<close> with scope \<^verbatim>\<open>local\<close> on a directory whose local configuration
  cannot be resolved (\<^verbatim>\<open>plain\<close>, outside every repository, for the old-git version;
  \<^verbatim>\<open>wt\<close>, a linked worktree without a resolvable root, for the other) does not return
  \<^verbatim>\<open>null\<close>: it writes the key into the global file and returns the new contents of
  that file.
\<close>

theorem setConfig_local_falls_back_to_global:
  "old_setConfig (example_config_env str)
      \<lparr> sc_dir = ''plain'', sc_gitdir = None, sc_scope = Local, sc_keyPath = ''user.name'',
        sc_value = Some (JStr ''Local Dev'') \<rparr>
     = (Some (str (JObj [(''user'', JObj [(''name'', JStr ''Local Dev''),
                                          (''email'', JStr ''dev@example.org'')])])),
        [(''/home/dev/.gitconfig'',
          str (JObj [(''user'', JObj [(''name'', JStr ''Local Dev''),
                                      (''email'', JStr ''dev@example.org'')])]))])
   \<and> setConfig (example_config_env str)
      \<lparr> sc_dir = ''wt'', sc_gitdir = None, sc_scope = Local, sc_keyPath = ''user.name'',
        sc_value = Some (JStr ''Local Dev'') \<rparr>
     = (Some (str (JObj [(''user'', JObj [(''name'', JStr ''Local Dev''),
                                          (''email'', JStr ''dev@example.org'')])])),
        [(''/home/dev/.gitconfig'',
          str (JObj [(''user'', JObj [(''name'', JStr ''Local Dev''),
                                      (''email'', JStr ''dev@example.org'')])]))])"
  by (simp add: setConfig_def old_setConfig_def writeConfig_def param_default_def truthy_def
      Let_def example_config_paths example_global_update)

lemma test_env_sel:
  "we_dirty (test_env d) p = d"
  "we_io_fails (test_env d) p = False"
  "adminDir (test_env d) linkedWorktree = [''baseRepo'', ''.git'', ''worktrees'', ''foo'']"
  "branchRef (test_env d) linkedWorktree = [''baseRepo'', ''.git'', ''refs'', ''heads'', ''foo'']"
  "wt_path linkedWorktree = [''foo'']"
  "wt_main linkedWorktree = False"
  by (simp_all add: test_env_def adminDir_def branchRef_def linkedWorktree_def)

text \<open>
  C1. For a linked worktree that is not the main one and is clean, \<open>remove\<close> without
  \<^verbatim>\<open>force\<close> (the three deletions not failing) deletes the working directory, the
  administrative directory \<^verbatim>\<open><gitdir>/worktrees/<name>\<close> and the branch ref
  \<^verbatim>\<open>refs/heads/<ref>\<close>: none of the three exists afterwards, and nothing below the two
  directories does.
\<close>

theorem remove_clean_without_force:
  assumes "\<not> wt_main wt" and "\<not> we_dirty env (wt_path wt)"
    and "force = None \<or> force = Some False"
    and "\<not> we_io_fails env (wt_path wt)" and "\<not> we_io_fails env (adminDir env wt)"
    and "\<not> we_io_fails env (branchRef env wt)"
  shows "\<exists>fs'. remove env wt force fs = Inr fs'
     \<and> (\<forall>p \<in> set fs'. \<not> prefix (wt_path wt) p \<and> \<not> prefix (adminDir env wt) p
           \<and> \<not> prefix (branchRef env wt) p)
     \<and> extractStats fs' (wt_path wt) = None
     \<and> extractStats fs' (adminDir env wt) = None
     \<and> extractStats fs' (branchRef env wt) = None"
proof -
  let ?fs' = "filter (\<lambda>q. \<not> prefix (branchRef env wt) q)
                (filter (\<lambda>q. \<not> prefix (adminDir env wt) q)
                  (filter (\<lambda>q. \<not> prefix (wt_path wt) q) fs))"
  have f: "param_default force False = False"
    using assms(3) by (auto simp: param_default_def)
  have r: "remove env wt force fs = Inr ?fs'"
    using assms(1,2,4,5,6) by (simp add: remove_def fs_delete_def f Let_def)
  have "\<forall>p \<in> set ?fs'. \<not> prefix (wt_path wt) p \<and> \<not> prefix (adminDir env wt) p
           \<and> \<not> prefix (branchRef env wt) p"
    by simp
  moreover have "extractStats ?fs' (wt_path wt) = None"
    by (simp add: extractStats_def)
  moreover have "extractStats ?fs' (adminDir env wt) = None"
    by (simp add: extractStats_def)
  moreover have "extractStats ?fs' (branchRef env wt) = None"
    by (simp add: extractStats_def)
  ultimately show ?thesis using r by blast
qed

theorem remove_clean_without_force_witness:
  "\<not> wt_main linkedWorktree
   \<and> \<not> we_dirty (test_env False) (wt_path linkedWorktree)
   \<and> \<not> we_io_fails (test_env False) (wt_path linkedWorktree)
   \<and> \<not> we_io_fails (test_env False) (adminDir (test_env False) linkedWorktree)
   \<and> \<not> we_io_fails (test_env False) (branchRef (test_env False) linkedWorktree)
   \<and> extractStats test_fs [''foo''] = Some ()
   \<and> extractStats test_fs [''baseRepo'', ''.git'', ''worktrees'', ''foo''] = Some ()
   \<and> extractStats test_fs [''baseRepo'', ''.git'', ''refs'', ''heads'', ''foo''] = Some ()
   \<and> \<not> isl (remove (test_env False) linkedWorktree (Some False) test_fs)
   \<and> extractStats (projr (remove (test_env False) linkedWorktree (Some False) test_fs))
        [''foo''] = None
   \<and> extractStats (projr (remove (test_env False) linkedWorktree (Some False) test_fs))
        [''baseRepo'', ''.git'', ''worktrees'', ''foo''] = None
   \<and> extractStats (projr (remove (test_env False) linkedWorktree (Some False) test_fs))
        [''baseRepo'', ''.git'', ''refs'', ''heads'', ''foo''] = None"
proof -
  have b: "extractStats test_fs [''foo''] = Some ()"
    "extractStats test_fs [''baseRepo'', ''.git'', ''worktrees'', ''foo''] = Some ()"
    "extractStats test_fs [''baseRepo'', ''.git'', ''refs'', ''heads'', ''foo''] = Some ()"
    by (simp_all add: extractStats_def test_fs_def)
  have "\<not> wt_main linkedWorktree" "\<not> we_dirty (test_env False) (wt_path linkedWorktree)"
    "Some False = None \<or> Some False = Some False"
    "\<not> we_io_fails (test_env False) (wt_path linkedWorktree)"
    "\<not> we_io_fails (test_env False) (adminDir (test_env False) linkedWorktree)"
    "\<not> we_io_fails (test_env False) (branchRef (test_env False) linkedWorktree)"
    by (simp_all add: test_env_sel)
  from remove_clean_without_force [OF this, of test_fs]
  show ?thesis
    by (auto simp add: test_env_sel b)
qed

text \<open>
  C3. For a linked worktree that is not the main one and is dirty, \<open>remove\<close> without
  \<^verbatim>\<open>force\<close> returns normally and leaves the file system as it was: the working directory,
  the administrative directory and the branch ref are untouched, and no deletion that
  could fail is attempted.
\<close>

theorem remove_dirty_without_force:
  assumes "\<not> wt_main wt" and "we_dirty env (wt_path wt)"
    and "force = None \<or> force = Some False"
  shows "remove env wt force fs = Inr fs
     \<and> extractStats (projr (remove env wt force fs)) (wt_path wt) = extractStats fs (wt_path wt)
     \<and> extractStats (projr (remove env wt force fs)) (adminDir env wt)
         = extractStats fs (adminDir env wt)
     \<and> extractStats (projr (remove env wt force fs)) (branchRef env wt)
         = extractStats fs (branchRef env wt)"
proof -
  have "param_default force False = False"
    using assms(3) by (auto simp: param_default_def)
  then have "remove env wt force fs = Inr fs"
    using assms(1,2) by (simp add: remove_def Let_def)
  then show ?thesis by simp
qed

theorem remove_dirty_without_force_witness:
  "\<not> wt_main linkedWorktree
   \<and> we_dirty (test_env True) (wt_path linkedWorktree)
   \<and> remove (test_env True) linkedWorktree None test_fs = Inr test_fs
   \<and> extractStats test_fs [''foo''] = Some ()
   \<and> extractStats test_fs [''baseRepo'', ''.git'', ''worktrees'', ''foo''] = Some ()
   \<and> extractStats test_fs [''baseRepo'', ''.git'', ''refs'', ''heads'', ''foo''] = Some ()"
proof -
  have "\<not> wt_main linkedWorktree" "we_dirty (test_env True) (wt_path linkedWorktree)"
    "None = None \<or> None = Some False"
    by (simp_all add: test_env_sel)
  from remove_dirty_without_force [OF this, of test_fs]
  show ?thesis
    by (simp add: test_env_sel extractStats_def, simp add: test_fs_def)
qed

end
